theory Spec2Isabelle
  imports Complex_Main
begin

section \<open>The within-host viral dynamics model of main_fig.py\<close>

text \<open>
  The module defines two production-rate functions and the class \<open>Model\<close>, whose method
  \<open>simulate\<close> hands a right-hand side to \<open>scipy.integrate.solve_ivp\<close> and post-processes
  the virus-load row of the result.

  Python floats are read as real numbers: rounding, overflow and NaN inputs are not
  represented. The two places where the float operations of the source leave the reals
  are written out: float division by zero raises \<open>ZeroDivisionError\<close>, and \<open>np.log10\<close>
  yields \<open>-inf\<close> at zero and \<open>nan\<close> below it.
\<close>

subsection \<open>Exceptions\<close>

text \<open>
  The payload of a \<open>ValueError\<close> keeps the numbers that Python prints in its message:
  "not enough values to unpack (expected n, got k)", "too many values to unpack
  (expected n)", "max() arg is an empty sequence"; \<open>Message\<close> carries the text of a
  \<open>ValueError\<close> raised inside the integration library.
\<close>

datatype value_error =
    NotEnoughValues nat nat
  | TooManyValues nat
  | MaxEmptySequence
  | Message string

datatype error =
    ValueError value_error
  | ZeroDivisionError
  | UnboundLocalError string
  | IndexError nat nat
  | OtherError string

text \<open>Tuple unpacking of a sequence of \<open>k\<close> values into \<open>n\<close> names, when \<open>k \<noteq> n\<close>.\<close>

definition unpack_error :: "nat \<Rightarrow> nat \<Rightarrow> error" where
  "unpack_error n k =
     (if k < n then ValueError (NotEnoughValues n k) else ValueError (TooManyValues n))"

text \<open>The operator \<open>/\<close> on Python floats.\<close>

definition truediv :: "real \<Rightarrow> real \<Rightarrow> error + real" where
  "truediv a b = (if b = 0 then Inl ZeroDivisionError else Inr (a / b))"

subsection \<open>Production rates\<close>

definition production_rate_step :: "real \<Rightarrow> real \<Rightarrow> real \<Rightarrow> real \<Rightarrow> real" where
  "production_rate_step t t_treat p0 epsilon =
     (if t < t_treat then p0 else p0 * (1.0 - epsilon))"

definition production_rate_tanh ::
  "real \<Rightarrow> real \<Rightarrow> real \<Rightarrow> real \<Rightarrow> real \<Rightarrow> error + real" where
  "production_rate_tanh t t_treat T_max p0 epsilon =
     (case truediv (t - (t_treat + 0.5 * T_max)) (0.25 * T_max) of
        Inl e \<Rightarrow> Inl e
      | Inr arg \<Rightarrow> Inr (- (p0 * epsilon / 2) * tanh arg + p0 - (p0 * epsilon / 2)))"

subsection \<open>The model object\<close>

text \<open>
  \<open>step_size\<close> and \<open>tolerance\<close> are a float or \<open>None\<close>. \<open>limit_of_quant\<close> is tested with
  \<open>is True\<close>, so only the Boolean \<open>True\<close> enables the limit.
\<close>

record Model =
  y0 :: "real list"
  solver :: string
  step_size :: "real option"
  tolerance :: "real option"
  t_treat :: real
  p_fn :: string
  limit_of_quant :: bool

definition init ::
  "real list \<Rightarrow> string \<Rightarrow> real option \<Rightarrow> real option \<Rightarrow> real \<Rightarrow> string \<Rightarrow> bool \<Rightarrow> Model" where
  "init y0' solver' step_size' tolerance' t_treat' p_fn' limit_of_quant' =
     \<lparr>y0 = y0', solver = solver', step_size = step_size', tolerance = tolerance',
      t_treat = t_treat', p_fn = p_fn', limit_of_quant = limit_of_quant'\<rparr>"

definition set_step_size :: "Model \<Rightarrow> real option \<Rightarrow> Model" where
  "set_step_size self v = self\<lparr>step_size := v\<rparr>"

definition set_tolerance :: "Model \<Rightarrow> real option \<Rightarrow> Model" where
  "set_tolerance self v = self\<lparr>tolerance := v\<rparr>"

definition n_parameters :: "Model \<Rightarrow> nat" where
  "n_parameters self = 5"

subsection \<open>The right-hand side built by simulate\<close>

text \<open>
  The nested function \<open>fun(t, y)\<close> closes over \<open>self\<close> and the five unpacked parameters.
  The name \<open>p\<close> is bound in the two branches of the \<open>if\<close>/\<open>elif\<close> only; with any other
  \<open>p_fn\<close> the read of \<open>p\<close> in the list display raises \<open>UnboundLocalError\<close>.
\<close>

type_synonym rhs = "real \<Rightarrow> real list \<Rightarrow> error + real list"

definition production_rate :: "Model \<Rightarrow> real \<Rightarrow> real \<Rightarrow> real \<Rightarrow> error + real" where
  "production_rate self p0 epsilon t =
     (if p_fn self = ''Step'' then Inr (production_rate_step t (t_treat self) p0 epsilon)
      else if p_fn self = ''Tanh'' then production_rate_tanh t 2.775 (1.08 / 24) p0 epsilon
      else Inl (UnboundLocalError ''p''))"

definition rhs_fun :: "Model \<Rightarrow> real \<Rightarrow> real \<Rightarrow> real \<Rightarrow> real \<Rightarrow> real \<Rightarrow> rhs" where
  "rhs_fun self beta delta p0 c epsilon t y =
     (case y of
        [T, I, V] \<Rightarrow>
          (case production_rate self p0 epsilon t of
             Inl e \<Rightarrow> Inl e
           | Inr p \<Rightarrow> Inr [- beta * T * V, beta * T * V - delta * I, p * I - c * V])
      | _ \<Rightarrow> Inl (unpack_error 3 (length y)))"

subsection \<open>The integration library\<close>

text \<open>
  \<open>scipy.integrate.solve_ivp\<close> is not part of the repository. It is a parameter of the
  model: a function of the arguments that \<open>simulate\<close> passes (\<open>fun\<close>, \<open>t_span\<close>, \<open>y0\<close>,
  \<open>t_eval\<close>, \<open>method\<close>, \<open>rtol\<close>, \<open>atol\<close>, \<open>step_size\<close>) that either raises or returns a
  result object. Of the result, \<open>simulate\<close> reads the attribute \<open>y\<close> only, an array of
  one or two dimensions; \<open>status\<close>, \<open>message\<close> and \<open>success\<close> are how the library reports
  a failed integration.
\<close>

datatype ndarray = Arr1 "real list" | Arr2 "real list list"

record OdeResult =
  res_y :: ndarray
  status :: int
  message :: string
  success :: bool

type_synonym ivp_solver =
  "rhs \<Rightarrow> real \<times> real \<Rightarrow> real list \<Rightarrow> real list \<Rightarrow> string
     \<Rightarrow> real option \<Rightarrow> real option \<Rightarrow> real option \<Rightarrow> error + OdeResult"

subsection \<open>simulate\<close>

text \<open>The builtin \<open>max\<close> on a sequence: the first item, replaced by each later greater one.\<close>

fun py_max :: "real list \<Rightarrow> error + real" where
  "py_max [] = Inl (ValueError MaxEmptySequence)"
| "py_max (x # xs) = Inr (fold (\<lambda>item m. if m < item then item else m) xs x)"

text \<open>\<open>y = res.y\<close>, and \<open>y = res.y[2]\<close> when the array has two dimensions.\<close>

definition virus_row :: "ndarray \<Rightarrow> error + real list" where
  "virus_row a =
     (case a of
        Arr1 v \<Rightarrow> Inr v
      | Arr2 rows \<Rightarrow> if 2 < length rows then Inr (rows ! 2) else Inl (IndexError 2 (length rows)))"

text \<open>The masked assignment \<open>y[y < 10**(0.7)] = 10**(0.7)\<close>.\<close>

definition apply_limit :: "real list \<Rightarrow> real list" where
  "apply_limit y = map (\<lambda>v. if v < 10 powr 0.7 then 10 powr 0.7 else v) y"

text \<open>\<open>np.log10\<close>, elementwise: \<open>-inf\<close> at zero and \<open>nan\<close> below, with a warning only.\<close>

datatype npfloat = Finite real | NegInf | NaN

definition log10 :: "real \<Rightarrow> npfloat" where
  "log10 v = (if 0 < v then Finite (log 10 v) else if v = 0 then NegInf else NaN)"

text \<open>
  \<open>simulate\<close> returns its value, or the exception raised, together with the model
  object as the call leaves it. The argument \<open>times\<close> is written \<open>times'\<close>: the plain name
  is the multiplication of HOL.
\<close>

definition simulate ::
  "ivp_solver \<Rightarrow> Model \<Rightarrow> real list \<Rightarrow> real list \<Rightarrow> (error + npfloat list) \<times> Model" where
  "simulate solve_ivp self parameters times' =
     (case parameters of
        [beta, delta, p0, c, epsilon] \<Rightarrow>
          (case py_max times' of
             Inl e \<Rightarrow> (Inl e, self)
           | Inr t_end \<Rightarrow>
               (case solve_ivp (rhs_fun self beta delta p0 c epsilon) (0, t_end) (y0 self) times'
                       (solver self) (tolerance self) (tolerance self) (step_size self) of
                  Inl e \<Rightarrow> (Inl e, self)
                | Inr res \<Rightarrow>
                    (case virus_row (res_y res) of
                       Inl e \<Rightarrow> (Inl e, self)
                     | Inr y \<Rightarrow>
                         (Inr (map log10 (if limit_of_quant self then apply_limit y else y)),
                          self))))
      | _ \<Rightarrow> (Inl (unpack_error 5 (length parameters)), self))"

subsection \<open>A stand-in for the integration library\<close>

text \<open>
  Concrete runs of \<open>simulate\<close> need a concrete integrator. \<open>stub_solve_ivp res\<close> goes
  through the steps of \<open>solve_ivp\<close> that do not depend on the numerical method: it
  rejects evaluation times outside the span or not strictly increasing along it,
  evaluates the right-hand side once at the initial state, letting its exception
  through, and then returns \<open>res\<close> in place of the computed trajectory.
\<close>

definition stub_solve_ivp :: "OdeResult \<Rightarrow> ivp_solver" where
  "stub_solve_ivp res f t_span y_init t_eval method rtol atol h =
     (if list_ex (\<lambda>v. v < min (fst t_span) (snd t_span) \<or> max (fst t_span) (snd t_span) < v) t_eval
      then Inl (ValueError (Message ''Values in t_eval are not within t_span.''))
      else if fst t_span < snd t_span \<and> \<not> sorted_wrt (<) t_eval
      then Inl (ValueError (Message ''Values in t_eval are not properly sorted.''))
      else (case f (fst t_span) y_init of Inl e \<Rightarrow> Inl e | Inr d \<Rightarrow> Inr res))"

text \<open>
  The two kinds of result object: \<open>solve_ivp\<close> reports a completed integration with
  status 0, and a failed step with status -1 and the part of the trajectory computed so
  far. It raises in neither case.
\<close>

definition finished :: "real list list \<Rightarrow> OdeResult" where
  "finished rows =
     \<lparr>res_y = Arr2 rows, status = 0,
      message = ''The solver successfully reached the end of the integration interval.'',
      success = True\<rparr>"

definition failed :: "real list list \<Rightarrow> OdeResult" where
  "failed rows =
     \<lparr>res_y = Arr2 rows, status = - 1,
      message = ''Required step size is less than spacing between numbers.'',
      success = False\<rparr>"

text \<open>
  Two facts about \<open>solve_ivp\<close> that the source relies on without checking them itself.
  \<open>checks_t_eval\<close>: evaluation times outside the span, or not strictly increasing along
  an ascending span, are refused with a \<open>ValueError\<close>. \<open>evaluates_rhs\<close>: the right-hand
  side is evaluated at the initial state, so that a call whose right-hand side raises
  there does not return.
\<close>

definition checks_t_eval :: "ivp_solver \<Rightarrow> bool" where
  "checks_t_eval solve_ivp \<longleftrightarrow>
     (\<forall>f t0 tf y_init t_eval method rtol atol h.
        (list_ex (\<lambda>v. v < min t0 tf \<or> max t0 tf < v) t_eval \<or>
         (t0 < tf \<and> \<not> sorted_wrt (<) t_eval)) \<longrightarrow>
        (\<exists>d. solve_ivp f (t0, tf) y_init t_eval method rtol atol h = Inl (ValueError d)))"

definition evaluates_rhs :: "ivp_solver \<Rightarrow> bool" where
  "evaluates_rhs solve_ivp \<longleftrightarrow>
     (\<forall>f t0 tf y_init t_eval method rtol atol h.
        (\<exists>e. f t0 y_init = Inl e) \<longrightarrow>
        (\<exists>e. solve_ivp f (t0, tf) y_init t_eval method rtol atol h = Inl e))"

subsection \<open>The configuration of make_figure\<close>

text \<open>
  \<open>make_figure\<close> builds its models from \<open>y0 = [4 * 10**8, 10**(-6), 10**(-3.42)]\<close>, the
  solver \<open>'RK45'\<close> and \<open>t_treat = 2.775\<close>, and simulates with \<open>true_params[:-1]\<close>.
\<close>

definition figure_model :: "real option \<Rightarrow> string \<Rightarrow> bool \<Rightarrow> Model" where
  "figure_model tol p_fn' limit_of_quant' =
     init [4 * 10 ^ 8, 10 powr (- 6), 10 powr (- 3.42)] ''RK45'' None tol 2.775 p_fn'
       limit_of_quant'"

definition true_params :: "real list" where
  "true_params = [1.81 * 10 powr (- 6), 7.07, 0.661, 14.8, 0.9738, 0.1]"

section \<open>Auxiliary facts\<close>

lemma limit_gt_one: "(1::real) < 10 powr 0.7"
  by simp

lemma limit_le_ten: "(10::real) powr 0.7 \<le> 10"
  using powr_mono [of "0.7::real" 1 10] by simp

lemma log10_limit: "log10 (10 powr 0.7) = Finite 0.7"
  by (simp add: log10_def)

lemma log10_above_limit:
  assumes "\<not> v < 10 powr 0.7"
  shows "log10 v = Finite (log 10 v) \<and> 0.7 \<le> log 10 v"
proof -
  have pos: "(0::real) < 10 powr 0.7" by simp
  from assms have le: "10 powr 0.7 \<le> v" by simp
  with pos have v: "0 < v" by linarith
  have "0.7 \<le> log 10 v"
    using le_log_iff [of 10 v "0.7"] v le by simp
  then show ?thesis using v by (simp add: log10_def)
qed

lemma log10_apply_limit:
  "map log10 (apply_limit y) =
     map (\<lambda>v. Finite (if v < 10 powr 0.7 then 0.7 else log 10 v)) y"
  by (simp add: apply_limit_def log10_limit log10_above_limit)

lemma py_max_Max: "times' \<noteq> [] \<Longrightarrow> py_max times' = Inr (Max (set times'))"
proof (cases times')
  case Nil
  assume "times' \<noteq> []"
  with Nil show ?thesis by simp
next
  case (Cons x xs)
  have "(\<lambda>item m. if m < item then item else m) = (max :: real \<Rightarrow> real \<Rightarrow> real)"
    by (intro ext) (simp add: max_def)
  with Cons show ?thesis
    by (simp add: Max.set_eq_fold [symmetric])
qed

lemma unsorted_below_Max:
  fixes xs :: "real list"
  assumes "\<not> sorted xs"
  shows "\<exists>v\<in>set xs. v < Max (set xs)"
proof -
  from assms obtain i j where ij: "i \<le> j" "j < length xs" "xs ! j < xs ! i"
    by (auto simp: sorted_iff_nth_mono not_le)
  then have "xs ! i \<in> set xs" "xs ! j \<in> set xs" by simp_all
  then have "xs ! i \<le> Max (set xs)" by simp
  with ij have "xs ! j < Max (set xs)" by linarith
  with \<open>xs ! j \<in> set xs\<close> show ?thesis by blast
qed

lemma simulate_bad_count:
  "length parameters \<noteq> 5 \<Longrightarrow>
   fst (simulate solve_ivp self parameters times') = Inl (unpack_error 5 (length parameters))"
  by (auto simp add: simulate_def split: list.splits)

lemma simulate_empty_times:
  "length parameters = 5 \<Longrightarrow>
   fst (simulate solve_ivp self parameters []) = Inl (ValueError MaxEmptySequence)"
  by (auto simp add: simulate_def split: list.splits)

lemma length_five:
  "length (parameters :: real list) = 5 \<Longrightarrow>
   \<exists>beta delta p0 c epsilon. parameters = [beta, delta, p0, c, epsilon]"
  by (auto simp: length_Suc_conv eval_nat_numeral)

lemma simulate_solver_raises:
  assumes "py_max times' = Inr t_end"
    and "solve_ivp (rhs_fun self beta delta p0 c epsilon) (0, t_end) (y0 self) times'
           (solver self) (tolerance self) (tolerance self) (step_size self) = Inl e"
  shows "fst (simulate solve_ivp self [beta, delta, p0, c, epsilon] times') = Inl e"
  using assms by (simp add: simulate_def)

lemma simulate_solver_returns:
  assumes "py_max times' = Inr t_end"
    and "solve_ivp (rhs_fun self beta delta p0 c epsilon) (0, t_end) (y0 self) times'
           (solver self) (tolerance self) (tolerance self) (step_size self) = Inr res"
    and "virus_row (res_y res) = Inr y"
  shows "fst (simulate solve_ivp self [beta, delta, p0, c, epsilon] times') =
           Inr (map log10 (if limit_of_quant self then apply_limit y else y))"
  using assms by (simp add: simulate_def)

lemma simulate_Inr:
  assumes "fst (simulate solve_ivp self parameters times') = Inr out"
  shows "\<exists>y. out = map log10 (if limit_of_quant self then apply_limit y else y)"
  using assms by (auto simp add: simulate_def split: list.splits sum.splits)

lemma stub_checks_t_eval: "checks_t_eval (stub_solve_ivp res)"
  by (simp add: checks_t_eval_def stub_solve_ivp_def)

lemma stub_evaluates_rhs: "evaluates_rhs (stub_solve_ivp res)"
  by (auto simp add: evaluates_rhs_def stub_solve_ivp_def)

lemma rhs_fun_unbound:
  assumes "p_fn self \<noteq> ''Step''" and "p_fn self \<noteq> ''Tanh''"
  shows "\<exists>e. rhs_fun self beta delta p0 c epsilon t y = Inl e"
  using assms by (simp add: rhs_fun_def production_rate_def split: list.splits)

section \<open>Properties of the production rates\<close>

text \<open>
  C4. \<open>production_rate_step\<close> returns \<open>p0\<close> before the treatment time and
  \<open>p0 * (1 - epsilon)\<close> from the treatment time on.
\<close>

theorem production_rate_step_cases:
  fixes t t_treat p0 epsilon :: real
  shows "(t < t_treat \<longrightarrow> production_rate_step t t_treat p0 epsilon = p0) \<and>
         (t_treat \<le> t \<longrightarrow> production_rate_step t t_treat p0 epsilon = p0 * (1 - epsilon))"
  by (simp add: production_rate_step_def)

theorem production_rate_step_cases_witness:
  "(1::real) < 2 \<and> production_rate_step 1 2 3 (1/2) = 3 \<and>
   (2::real) \<le> 5 \<and> production_rate_step 5 2 3 (1/2) = 3 * (1 - 1/2)"
  using production_rate_step_cases [of 1 2 3 "1/2"] production_rate_step_cases [of 5 2 3 "1/2"]
  by simp

text \<open>
  C5, as stated for every \<open>T_max\<close>, fails at \<open>T_max = 0\<close>: the divisor \<open>0.25 * T_max\<close> is
  zero and the float division raises.
\<close>

theorem production_rate_tanh_zero_T_max:
  "production_rate_tanh 3 2 0 1 (1/2) = Inl ZeroDivisionError"
  by (simp add: production_rate_tanh_def truediv_def)

text \<open>
  C5 (amended). For \<open>T_max \<noteq> 0\<close>, \<open>production_rate_tanh\<close> returns
  \<open>p0 - (p0 * epsilon / 2) * (1 + tanh ((t - (t_treat + 0.5 * T_max)) / (0.25 * T_max)))\<close>,
  and at the midpoint \<open>t = t_treat + 0.5 * T_max\<close> it returns \<open>p0 * (1 - epsilon / 2)\<close>.
\<close>

theorem production_rate_tanh_formula:
  fixes t t_treat T_max p0 epsilon :: real
  assumes "T_max \<noteq> 0"
  shows "production_rate_tanh t t_treat T_max p0 epsilon =
           Inr (p0 - (p0 * epsilon / 2) *
                  (1 + tanh ((t - (t_treat + 0.5 * T_max)) / (0.25 * T_max)))) \<and>
         production_rate_tanh (t_treat + 0.5 * T_max) t_treat T_max p0 epsilon =
           Inr (p0 * (1 - epsilon / 2))"
  using assms by (simp add: production_rate_tanh_def truediv_def algebra_simps)

theorem production_rate_tanh_formula_witness:
  "(2::real) \<noteq> 0 \<and> production_rate_tanh 4 3 2 6 (1/3) = Inr 5"
  using production_rate_tanh_formula [of 2 4 3 6 "1/3"] by simp

text \<open>
  C6, as stated for all other arguments, fails for the tanh rate at \<open>T_max = 0\<close>, where
  the call raises instead of returning \<open>p0\<close>.
\<close>

theorem production_rate_tanh_no_effect_zero_T_max:
  "production_rate_tanh 1 0 0 7 0 = Inl ZeroDivisionError"
  by (simp add: production_rate_tanh_def truediv_def)

text \<open>
  C6 (amended). With \<open>epsilon = 0\<close>, \<open>production_rate_step\<close> returns \<open>p0\<close> for all other
  arguments, and \<open>production_rate_tanh\<close> returns \<open>p0\<close> for all other arguments with
  \<open>T_max \<noteq> 0\<close>.
\<close>

theorem production_rate_no_effect:
  fixes t t_treat T_max p0 :: real
  shows "production_rate_step t t_treat p0 0 = p0 \<and>
         (T_max \<noteq> 0 \<longrightarrow> production_rate_tanh t t_treat T_max p0 0 = Inr p0)"
  by (simp add: production_rate_step_def production_rate_tanh_def truediv_def)

theorem production_rate_no_effect_witness:
  "production_rate_step 1 2 7 0 = 7 \<and> (1/24::real) \<noteq> 0 \<and>
   production_rate_tanh 1 2 (1/24) 7 0 = Inr 7"
  using production_rate_no_effect [of 1 2 7 "1/24"] by simp

section \<open>Properties of simulate\<close>

text \<open>
  C7. A call of \<open>simulate\<close> with a parameter sequence whose length is not 5 raises the
  \<open>ValueError\<close> of the tuple unpacking, whose message names the expected count 5;
  \<open>n_parameters\<close> returns 5.
\<close>

theorem simulate_parameter_count:
  assumes "length parameters \<noteq> 5"
  shows "fst (simulate solve_ivp self parameters times') =
           Inl (ValueError (if length parameters < 5
                            then NotEnoughValues 5 (length parameters) else TooManyValues 5)) \<and>
         n_parameters self = 5"
  using simulate_bad_count [OF assms, of solve_ivp self times']
  by (simp add: unpack_error_def n_parameters_def)

theorem simulate_parameter_count_witness:
  "length true_params \<noteq> 5 \<and>
   fst (simulate (stub_solve_ivp (finished [[1, 1], [2, 2], [3, 3]]))
          (figure_model None ''Step'' True) true_params [0, 1]) =
     Inl (ValueError (TooManyValues 5)) \<and>
   n_parameters (figure_model None ''Step'' True) = 5"
  using simulate_parameter_count
    [of true_params "stub_solve_ivp (finished [[1, 1], [2, 2], [3, 3]])"
        "figure_model None ''Step'' True" "[0, 1]"]
  by (simp add: true_params_def)

text \<open>
  C9. A call of \<open>simulate\<close> leaves the model object as it was, every stored field
  included, so a second call with the same parameters and times starts from the same
  configuration and returns the same output.
\<close>

theorem simulate_pure:
  "snd (simulate solve_ivp self parameters times') = self \<and>
   fst (simulate solve_ivp (snd (simulate solve_ivp self parameters times')) parameters times') =
     fst (simulate solve_ivp self parameters times')"
proof -
  have "snd (simulate solve_ivp self parameters times') = self"
    by (simp add: simulate_def split: list.splits sum.splits)
  then show ?thesis by simp
qed

text \<open>
  C1. With \<open>p_fn = "Tanh"\<close> the production rate inside the right-hand side is
  \<open>production_rate_tanh\<close> at the local constants \<open>t_treat = 2.775\<close> and
  \<open>T_max = 1.08/24\<close>; the configured \<open>t_treat\<close> is not read, and two models that differ
  in it only give the same output of \<open>simulate\<close> on the same parameters and times.
\<close>

theorem tanh_ignores_configured_t_treat:
  assumes "p_fn self = ''Tanh''"
  shows "production_rate self p0 epsilon t = production_rate_tanh t 2.775 (1.08 / 24) p0 epsilon \<and>
         fst (simulate solve_ivp (self\<lparr>t_treat := a\<rparr>) parameters times') =
           fst (simulate solve_ivp self parameters times')"
proof -
  have rhs: "rhs_fun (self\<lparr>t_treat := a\<rparr>) beta delta p0' c eps = rhs_fun self beta delta p0' c eps"
    for beta delta p0' c eps
    using assms by (intro ext) (simp add: rhs_fun_def production_rate_def split: list.splits)
  have "simulate solve_ivp (self\<lparr>t_treat := a\<rparr>) parameters times' =
          (fst (simulate solve_ivp self parameters times'), self\<lparr>t_treat := a\<rparr>)"
    by (simp add: simulate_def rhs split: list.splits sum.splits)
  then show ?thesis
    using assms by (simp add: production_rate_def)
qed

theorem tanh_ignores_configured_t_treat_witness:
  "p_fn (figure_model (Some 0.001) ''Tanh'' True) = ''Tanh'' \<and>
   production_rate (figure_model (Some 0.001) ''Tanh'' True) 0.661 0.9738 2.7975 =
     production_rate_tanh 2.7975 2.775 (1.08 / 24) 0.661 0.9738 \<and>
   fst (simulate (stub_solve_ivp (finished [[4, 3], [0, 1], [1, 10]]))
          ((figure_model (Some 0.001) ''Tanh'' True)\<lparr>t_treat := 5\<rparr>) (butlast true_params) [0, 1]) =
   fst (simulate (stub_solve_ivp (finished [[4, 3], [0, 1], [1, 10]]))
          (figure_model (Some 0.001) ''Tanh'' True) (butlast true_params) [0, 1])"
  using tanh_ignores_configured_t_treat
    [of "figure_model (Some 0.001) ''Tanh'' True" "0.661" "0.9738" "2.7975"
        "stub_solve_ivp (finished [[4, 3], [0, 1], [1, 10]])" 5 "butlast true_params" "[0, 1]"]
  by (simp add: figure_model_def init_def)

text \<open>
  C3. With \<open>limit_of_quant\<close> enabled, every element that \<open>simulate\<close> returns is a finite
  number not below 0.7: the returned sequence is the virus-load row with each value
  below \<open>10**0.7\<close> replaced by \<open>10**0.7\<close> first and the logarithm taken afterwards, so a
  replaced value comes out as 0.7 and any other as its logarithm.
\<close>

theorem detection_limit_floor:
  assumes "limit_of_quant self"
    and "fst (simulate solve_ivp self parameters times') = Inr out"
  shows "list_all (\<lambda>v. \<exists>r. v = Finite r \<and> 0.7 \<le> r) out \<and>
         (\<exists>y. out = map log10 (apply_limit y) \<and>
              out = map (\<lambda>v. Finite (if v < 10 powr 0.7 then 0.7 else log 10 v)) y)"
proof -
  from simulate_Inr [OF assms(2)] assms(1)
  obtain y where out: "out = map log10 (apply_limit y)" by auto
  then have out': "out = map (\<lambda>v. Finite (if v < 10 powr 0.7 then 0.7 else log 10 v)) y"
    by (simp only: log10_apply_limit)
  have "0.7 \<le> (if v < 10 powr 0.7 then 0.7 else log 10 v)" for v :: real
    using log10_above_limit [of v] by simp
  then have "list_all (\<lambda>v. \<exists>r. v = Finite r \<and> 0.7 \<le> r) out"
    unfolding out' by (simp add: list_all_iff)
  with out out' show ?thesis by blast
qed

theorem detection_limit_floor_witness:
  "limit_of_quant (figure_model (Some 0.001) ''Step'' True) \<and>
   fst (simulate (stub_solve_ivp (finished [[4, 3], [0, 1], [1, 10]]))
          (figure_model (Some 0.001) ''Step'' True) (butlast true_params) [0, 1]) =
     Inr [Finite 0.7, Finite 1] \<and>
   list_all (\<lambda>v. \<exists>r. v = Finite r \<and> 0.7 \<le> r) [Finite 0.7, Finite 1]"
proof -
  let ?m = "figure_model (Some 0.001) ''Step'' True"
  let ?s = "stub_solve_ivp (finished [[4, 3], [0, 1], [1, 10]])"
  have on: "limit_of_quant ?m"
    by (simp add: figure_model_def init_def)
  have below: "\<not> (10::real) < 10 powr 0.7"
    using limit_le_ten by simp
  have run: "fst (simulate ?s ?m (butlast true_params) [0, 1]) = Inr [Finite 0.7, Finite 1]"
    by (simp add: simulate_def true_params_def figure_model_def init_def stub_solve_ivp_def
        finished_def rhs_fun_def production_rate_def production_rate_step_def virus_row_def
        apply_limit_def limit_gt_one below log10_limit log10_def)
  from detection_limit_floor [OF on run] on run show ?thesis by simp
qed

text \<open>
  C2, as stated, fails: \<open>solve_ivp\<close> reports a failed integration in the \<open>status\<close> of the
  result it returns, and \<open>simulate\<close> reads \<open>y\<close> only. Here the integration is reported
  failed after the first of two requested times; \<open>simulate\<close> raises nothing and returns
  one value.
\<close>

theorem simulate_returns_after_failed_integration:
  "status (failed [[4], [0], [10]]) = - 1 \<and>
   fst (simulate (stub_solve_ivp (failed [[4], [0], [10]]))
          (figure_model (Some 0.001) ''Step'' False) (butlast true_params) [0, 1]) =
     Inr [Finite 1]"
  by (simp add: simulate_def true_params_def figure_model_def init_def stub_solve_ivp_def
      failed_def rhs_fun_def production_rate_def production_rate_step_def virus_row_def
      log10_def)

text \<open>
  C2 (amended). \<open>simulate\<close> does not inspect the outcome of the integration. With five
  parameters and a non-empty time grid, an exception raised by \<open>solve_ivp\<close> leaves
  \<open>simulate\<close> unchanged; and whenever \<open>solve_ivp\<close> returns a result, reported as
  successful or not, from which the virus-load row can be read, \<open>simulate\<close> returns a
  sequence with one value per entry of that row. Its length is the length of \<open>times\<close>
  when the integrator delivers one column per requested time.
\<close>

theorem simulate_integrator_outcome:
  assumes "py_max times' = Inr t_end"
    and "r = solve_ivp (rhs_fun self beta delta p0 c epsilon) (0, t_end) (y0 self) times'
               (solver self) (tolerance self) (tolerance self) (step_size self)"
  shows "(\<forall>e. r = Inl e \<longrightarrow>
            fst (simulate solve_ivp self [beta, delta, p0, c, epsilon] times') = Inl e) \<and>
         (\<forall>res y. r = Inr res \<and> virus_row (res_y res) = Inr y \<longrightarrow>
            (\<exists>out. fst (simulate solve_ivp self [beta, delta, p0, c, epsilon] times') = Inr out \<and>
                   length out = length y))"
proof (intro conjI allI impI)
  fix e assume "r = Inl e"
  with assms show "fst (simulate solve_ivp self [beta, delta, p0, c, epsilon] times') = Inl e"
    by (intro simulate_solver_raises) simp_all
next
  fix res y assume a: "r = Inr res \<and> virus_row (res_y res) = Inr y"
  from a assms(2) have call:
    "solve_ivp (rhs_fun self beta delta p0 c epsilon) (0, t_end) (y0 self) times'
       (solver self) (tolerance self) (tolerance self) (step_size self) = Inr res"
    by simp
  from a have row: "virus_row (res_y res) = Inr y" by simp
  from simulate_solver_returns
         [of times' t_end solve_ivp self beta delta p0 c epsilon res y, OF assms(1) call row]
  show "\<exists>out. fst (simulate solve_ivp self [beta, delta, p0, c, epsilon] times') = Inr out \<and>
              length out = length y"
    by (simp add: apply_limit_def)
qed

theorem simulate_integrator_outcome_witness:
  "py_max [0, 1] = Inr 1 \<and>
   (\<exists>out. fst (simulate (stub_solve_ivp (finished [[4, 3], [0, 1], [1, 10]]))
                  (figure_model (Some 0.001) ''Step'' False) [2, 3, 5, 7, 1] [0, 1]) = Inr out \<and>
          length out = length [1, 10 :: real]) \<and>
   fst (simulate (stub_solve_ivp (finished [[4, 3], [0, 1], [1, 10]]))
          (figure_model (Some 0.001) ''Tanh'' False) [2, 3, 5, 7, 1] [1, 0]) =
     Inl (ValueError (Message ''Values in t_eval are not properly sorted.''))"
proof -
  let ?s = "stub_solve_ivp (finished [[4, 3], [0, 1], [1, 10]])"
  let ?m = "figure_model (Some 0.001) ''Step'' False"
  let ?n = "figure_model (Some 0.001) ''Tanh'' False"
  have grid: "py_max [0, 1] = Inr 1" and grid': "py_max [1, 0] = Inr 1"
    by simp_all
  have ok: "?s (rhs_fun ?m 2 3 5 7 1) (0, 1) (y0 ?m) [0, 1] (solver ?m) (tolerance ?m)
              (tolerance ?m) (step_size ?m) = Inr (finished [[4, 3], [0, 1], [1, 10]])"
    by (simp add: figure_model_def init_def stub_solve_ivp_def rhs_fun_def production_rate_def
        production_rate_step_def)
  have row: "virus_row (res_y (finished [[4, 3], [0, 1], [1, 10]])) = Inr [1, 10]"
    by (simp add: finished_def virus_row_def)
  have bad: "?s (rhs_fun ?n 2 3 5 7 1) (0, 1) (y0 ?n) [1, 0] (solver ?n) (tolerance ?n)
               (tolerance ?n) (step_size ?n) =
             Inl (ValueError (Message ''Values in t_eval are not properly sorted.''))"
    by (simp add: stub_solve_ivp_def)
  from simulate_integrator_outcome
         [of "[0, 1]" 1 "Inr (finished [[4, 3], [0, 1], [1, 10]])" ?s ?m 2 3 5 7 1] grid ok row
  have first: "\<exists>out. fst (simulate ?s ?m [2, 3, 5, 7, 1] [0, 1]) = Inr out \<and>
                     length out = length [1, 10 :: real]"
    by simp
  from simulate_integrator_outcome
         [of "[1, 0]" 1 "Inl (ValueError (Message ''Values in t_eval are not properly sorted.''))"
             ?s ?n 2 3 5 7 1] grid' bad
  have second: "fst (simulate ?s ?n [2, 3, 5, 7, 1] [1, 0]) =
                  Inl (ValueError (Message ''Values in t_eval are not properly sorted.''))"
    by simp
  from grid first second show ?thesis by blast
qed

text \<open>
  C8. The source has no check of the time grid of its own. An empty grid fails in
  \<open>max(times)\<close> with a \<open>ValueError\<close>. A grid that is not sorted in ascending order is
  passed on as \<open>t_eval\<close> with the span \<open>(0, max(times))\<close>, and \<open>simulate\<close> fails with the
  \<open>ValueError\<close> of an integrator that checks \<open>t_eval\<close> as \<open>solve_ivp\<close> does: such a grid
  is not strictly increasing when its maximum is positive, and has a value outside the
  span otherwise.
\<close>

theorem simulate_rejects_bad_time_grid:
  assumes "checks_t_eval solve_ivp"
    and "times' = [] \<or> \<not> sorted times'"
  shows "\<exists>d. fst (simulate solve_ivp self parameters times') = Inl (ValueError d)"
proof (cases "length parameters = 5")
  case False
  from simulate_bad_count [OF False] show ?thesis
    by (simp add: unpack_error_def)
next
  case True
  show ?thesis
  proof (cases "times' = []")
    case empty: True
    with simulate_empty_times [OF \<open>length parameters = 5\<close>] show ?thesis by simp
  next
    case False
    with assms(2) have unsorted: "\<not> sorted times'" by simp
    from length_five [OF True] obtain beta delta p0 c epsilon
      where ps: "parameters = [beta, delta, p0, c, epsilon]" by blast
    let ?t_end = "Max (set times')"
    from False have grid: "py_max times' = Inr ?t_end" by (rule py_max_Max)
    have refused:
      "list_ex (\<lambda>v. v < min 0 ?t_end \<or> max 0 ?t_end < v) times' \<or>
       (0 < ?t_end \<and> \<not> sorted_wrt (<) times')"
    proof (cases "0 < ?t_end")
      case True
      moreover from unsorted have "\<not> sorted_wrt (<) times'"
        using strict_sorted_imp_sorted by blast
      ultimately show ?thesis by simp
    next
      case False
      then have "min 0 ?t_end = ?t_end" by simp
      with unsorted_below_Max [OF unsorted] show ?thesis
        by (auto simp: list_ex_iff)
    qed
    with assms(1) obtain d where call:
      "solve_ivp (rhs_fun self beta delta p0 c epsilon) (0, ?t_end) (y0 self) times'
         (solver self) (tolerance self) (tolerance self) (step_size self) = Inl (ValueError d)"
      unfolding checks_t_eval_def by blast
    from simulate_solver_raises
           [of times' ?t_end solve_ivp self beta delta p0 c epsilon "ValueError d", OF grid call]
         ps
    show ?thesis by blast
  qed
qed

theorem simulate_rejects_bad_time_grid_witness:
  "checks_t_eval (stub_solve_ivp (finished [[4, 3], [0, 1], [1, 10]])) \<and>
   \<not> sorted [1, 0 :: real] \<and>
   (\<exists>d. fst (simulate (stub_solve_ivp (finished [[4, 3], [0, 1], [1, 10]]))
                (figure_model (Some 0.001) ''Step'' True) (butlast true_params) [1, 0]) =
         Inl (ValueError d)) \<and>
   fst (simulate (stub_solve_ivp (finished [[4, 3], [0, 1], [1, 10]]))
          (figure_model (Some 0.001) ''Step'' True) (butlast true_params) [1, 0]) =
     Inl (ValueError (Message ''Values in t_eval are not properly sorted.'')) \<and>
   (\<exists>d. fst (simulate (stub_solve_ivp (finished [[4, 3], [0, 1], [1, 10]]))
                (figure_model (Some 0.001) ''Step'' True) (butlast true_params) []) =
         Inl (ValueError d))"
proof -
  let ?s = "stub_solve_ivp (finished [[4, 3], [0, 1], [1, 10]])"
  let ?m = "figure_model (Some 0.001) ''Step'' True"
  have unsorted: "[1, 0 :: real] = [] \<or> \<not> sorted [1, 0 :: real]" by simp
  have empty: "([] :: real list) = [] \<or> \<not> sorted ([] :: real list)" by simp
  have run: "fst (simulate ?s ?m (butlast true_params) [1, 0]) =
               Inl (ValueError (Message ''Values in t_eval are not properly sorted.''))"
    by (simp add: simulate_def true_params_def stub_solve_ivp_def)
  from simulate_rejects_bad_time_grid [OF stub_checks_t_eval unsorted, of _ ?m "butlast true_params"]
       simulate_rejects_bad_time_grid [OF stub_checks_t_eval empty, of _ ?m "butlast true_params"]
       run stub_checks_t_eval [of "finished [[4, 3], [0, 1], [1, 10]]"]
  show ?thesis by simp
qed

text \<open>
  C10. With a \<open>p_fn\<close> other than \<open>"Step"\<close> and \<open>"Tanh"\<close> neither branch binds \<open>p\<close>, and every
  evaluation of the right-hand side on a three-component state raises
  \<open>UnboundLocalError\<close> for \<open>p\<close>. Every call of \<open>simulate\<close> then fails, given an
  integrator that evaluates the right-hand side at the initial state, as the methods of
  \<open>solve_ivp\<close> do when the solver object is built.
\<close>

theorem simulate_unknown_p_fn_fails:
  assumes "p_fn self \<noteq> ''Step''" and "p_fn self \<noteq> ''Tanh''"
    and "evaluates_rhs solve_ivp"
  shows "rhs_fun self beta delta p0 c epsilon t [T, I, V] = Inl (UnboundLocalError ''p'') \<and>
         (\<exists>e. fst (simulate solve_ivp self parameters times') = Inl e)"
proof
  from assms(1,2)
  show "rhs_fun self beta delta p0 c epsilon t [T, I, V] = Inl (UnboundLocalError ''p'')"
    by (simp add: rhs_fun_def production_rate_def)
next
  show "\<exists>e. fst (simulate solve_ivp self parameters times') = Inl e"
  proof (cases "length parameters = 5")
    case False
    from simulate_bad_count [OF False] show ?thesis by blast
  next
    case True
    show ?thesis
    proof (cases "times' = []")
      case empty: True
      with simulate_empty_times [OF \<open>length parameters = 5\<close>] show ?thesis by blast
    next
      case False
      from length_five [OF True] obtain b d q k eps
        where ps: "parameters = [b, d, q, k, eps]" by blast
      let ?t_end = "Max (set times')"
      from False have grid: "py_max times' = Inr ?t_end" by (rule py_max_Max)
      from rhs_fun_unbound [OF assms(1,2)]
      have "\<exists>e. rhs_fun self b d q k eps 0 (y0 self) = Inl e" .
      with assms(3) obtain e where call:
        "solve_ivp (rhs_fun self b d q k eps) (0, ?t_end) (y0 self) times'
           (solver self) (tolerance self) (tolerance self) (step_size self) = Inl e"
        unfolding evaluates_rhs_def by blast
      from simulate_solver_raises [of times' ?t_end solve_ivp self b d q k eps e, OF grid call] ps
      show ?thesis by blast
    qed
  qed
qed

theorem simulate_unknown_p_fn_fails_witness:
  "p_fn (figure_model (Some 0.001) ''Sigmoid'' True) \<noteq> ''Step'' \<and>
   p_fn (figure_model (Some 0.001) ''Sigmoid'' True) \<noteq> ''Tanh'' \<and>
   evaluates_rhs (stub_solve_ivp (finished [[4, 3], [0, 1], [1, 10]])) \<and>
   rhs_fun (figure_model (Some 0.001) ''Sigmoid'' True) 2 3 5 7 1 0 [4, 0, 1] =
     Inl (UnboundLocalError ''p'') \<and>
   fst (simulate (stub_solve_ivp (finished [[4, 3], [0, 1], [1, 10]]))
          (figure_model (Some 0.001) ''Sigmoid'' True) (butlast true_params) [0, 1]) =
     Inl (UnboundLocalError ''p'')"
proof -
  let ?s = "stub_solve_ivp (finished [[4, 3], [0, 1], [1, 10]])"
  let ?m = "figure_model (Some 0.001) ''Sigmoid'' True"
  have step: "p_fn ?m \<noteq> ''Step''" and tanh: "p_fn ?m \<noteq> ''Tanh''"
    by (simp_all add: figure_model_def init_def)
  have run: "fst (simulate ?s ?m (butlast true_params) [0, 1]) = Inl (UnboundLocalError ''p'')"
    by (simp add: simulate_def true_params_def figure_model_def init_def stub_solve_ivp_def
        rhs_fun_def production_rate_def)
  from simulate_unknown_p_fn_fails [OF step tanh stub_evaluates_rhs, of 2 3 5 7 1 0 4 0 1]
       step tanh run stub_evaluates_rhs [of "finished [[4, 3], [0, 1], [1, 10]]"]
  show ?thesis by simp
qed

end
